theory Spec2Isabelle
  imports
    Complex_Main
    "HOL-Library.Word"
    "HOL-Library.Char_ord"
    "HOL-Library.List_Lexorder"
    "HOL-Library.Multiset"
    "HOL-Library.AList"
begin

unbundle bit_operations_syntax

section \<open>Go strings and the library functions the code calls\<close>

text \<open>
  A Go \<^verbatim>\<open>string\<close> is a sequence of bytes, modelled as \<^typ>\<open>string\<close> (one \<^typ>\<open>char\<close> is
  one byte). The functions of this section are those of the Go language and its standard
  library that the sources call; they are written after the library's documented behaviour.
\<close>

definition byte :: "char \<Rightarrow> nat" where
  "byte c = of_char c"

subsection \<open>UTF-8 decoding: \<^verbatim>\<open>utf8.DecodeRuneInString\<close>, \<^verbatim>\<open>range\<close> over a string\<close>

definition RuneError :: nat where
  "RuneError = 0xFFFD"

text \<open>
  For a lead byte: the length of the encoding and the range accepted for the second byte
  (the table \<^verbatim>\<open>first\<close> with \<^verbatim>\<open>acceptRanges\<close> of package \<^verbatim>\<open>unicode/utf8\<close>).
\<close>

definition leadInfo :: "nat \<Rightarrow> (nat \<times> nat \<times> nat) option" where
  "leadInfo b =
     (if 0xC2 \<le> b \<and> b \<le> 0xDF then Some (2, 0x80, 0xBF)
      else if b = 0xE0 then Some (3, 0xA0, 0xBF)
      else if 0xE1 \<le> b \<and> b \<le> 0xEC then Some (3, 0x80, 0xBF)
      else if b = 0xED then Some (3, 0x80, 0x9F)
      else if 0xEE \<le> b \<and> b \<le> 0xEF then Some (3, 0x80, 0xBF)
      else if b = 0xF0 then Some (4, 0x90, 0xBF)
      else if 0xF1 \<le> b \<and> b \<le> 0xF3 then Some (4, 0x80, 0xBF)
      else if b = 0xF4 then Some (4, 0x80, 0x8F)
      else None)"

definition cont :: "nat \<Rightarrow> bool" where
  "cont b = (0x80 \<le> b \<and> b \<le> 0xBF)"

text \<open>The rune at the front of a string and the number of bytes it takes.\<close>

fun DecodeRune :: "string \<Rightarrow> nat \<times> nat" where
  "DecodeRune [] = (RuneError, 0)"
| "DecodeRune (c0 # rest) =
     (let s0 = byte c0 in
      if s0 < 0x80 then (s0, 1)
      else
        (case leadInfo s0 of
           None \<Rightarrow> (RuneError, 1)
         | Some (sz, lo, hi) \<Rightarrow>
             if length (c0 # rest) < sz then (RuneError, 1)
             else
               (case rest of
                  [] \<Rightarrow> (RuneError, 1)
                | c1 # r1 \<Rightarrow>
                    (let s1 = byte c1 in
                     if s1 < lo \<or> hi < s1 then (RuneError, 1)
                     else if sz \<le> 2 then ((s0 mod 32) * 64 + s1 mod 64, 2)
                     else
                       (case r1 of
                          [] \<Rightarrow> (RuneError, 1)
                        | c2 # r2 \<Rightarrow>
                            (let s2 = byte c2 in
                             if \<not> cont s2 then (RuneError, 1)
                             else if sz \<le> 3 then
                               ((s0 mod 16) * 4096 + (s1 mod 64) * 64 + s2 mod 64, 3)
                             else
                               (case r2 of
                                  [] \<Rightarrow> (RuneError, 1)
                                | c3 # r3 \<Rightarrow>
                                    (let s3 = byte c3 in
                                     if \<not> cont s3 then (RuneError, 1)
                                     else
                                       ((s0 mod 8) * 262144 + (s1 mod 64) * 4096
                                          + (s2 mod 64) * 64 + s3 mod 64, 4)))))))))"

lemma DecodeRune_width_pos: "s \<noteq> [] \<Longrightarrow> 0 < snd (DecodeRune s)"
  by (cases s) (auto simp: Let_def split: option.splits list.splits prod.splits)

text \<open>
  A string as Go's \<^verbatim>\<open>range\<close> loop and the regular-expression engine walk it: the list
  of its runes, each with the bytes it was decoded from. An invalid byte is the rune
  \<^const>\<open>RuneError\<close> of width one.
\<close>

function tokens :: "string \<Rightarrow> (nat \<times> string) list" where
  "tokens s =
     (if s = [] then []
      else (fst (DecodeRune s), take (snd (DecodeRune s)) s)
             # tokens (drop (snd (DecodeRune s)) s))"
  by pat_completeness auto
termination
  by (relation "measure length") (auto simp: DecodeRune_width_pos)

declare tokens.simps [simp del]

definition runes :: "string \<Rightarrow> nat list" where
  "runes s = map fst (tokens s)"

definition bytesOf :: "(nat \<times> string) list \<Rightarrow> string" where
  "bytesOf ts = concat (map snd ts)"

text \<open>\<^verbatim>\<open>utf8.ValidString\<close>: no position decodes to an invalid byte.\<close>

definition ValidString :: "string \<Rightarrow> bool" where
  "ValidString s = list_all (\<lambda>t. \<not> (fst t = RuneError \<and> length (snd t) = 1)) (tokens s)"

subsection \<open>Package \<^verbatim>\<open>strings\<close>\<close>

text \<open>\<^verbatim>\<open>unicode.IsSpace\<close>: the code points with the property White\_Space.\<close>

definition IsSpace :: "nat \<Rightarrow> bool" where
  "IsSpace r =
     ((9 \<le> r \<and> r \<le> 13) \<or> r = 32 \<or> r = 0x85 \<or> r = 0xA0 \<or> r = 0x1680
      \<or> (0x2000 \<le> r \<and> r \<le> 0x200A) \<or> r = 0x2028 \<or> r = 0x2029 \<or> r = 0x202F
      \<or> r = 0x205F \<or> r = 0x3000)"

text \<open>\<^verbatim>\<open>strings.TrimSpace\<close> removes the leading and the trailing white-space runes.\<close>

definition TrimSpace :: "string \<Rightarrow> string" where
  "TrimSpace s =
     bytesOf (rev (dropWhile (\<lambda>t. IsSpace (fst t)) (rev (dropWhile (\<lambda>t. IsSpace (fst t)) (tokens s)))))"

definition HasPrefix :: "string \<Rightarrow> string \<Rightarrow> bool" where
  "HasPrefix s p = (take (length p) s = p)"




text \<open>\<^verbatim>\<open>strings.Join\<close>.\<close>

fun Join :: "string list \<Rightarrow> string \<Rightarrow> string" where
  "Join [] sep = []"
| "Join [x] sep = x"
| "Join (x # y # r) sep = x @ sep @ Join (y # r) sep"

text \<open>\<^verbatim>\<open>fmt.Sprintf("%d", n)\<close> for a natural number.\<close>

definition digit :: "nat \<Rightarrow> char" where
  "digit d = ''0123456789'' ! d"

fun itoa :: "nat \<Rightarrow> string" where
  "itoa n = (if n < 10 then [digit n] else itoa (n div 10) @ [digit (n mod 10)])"

declare itoa.simps [simp del]

subsection \<open>Package \<^verbatim>\<open>regexp\<close>\<close>

text \<open>
  The patterns of the sources are sequences of: one rune of a class, a class repeated
  lazily (\<^verbatim>\<open>*?\<close>), a class repeated greedily (\<^verbatim>\<open>*\<close>). The engine reads runes, and a match
  is the one a backtracking search finds first (leftmost-first): a lazy repetition tries to
  stop before it takes a rune, a greedy one after.
\<close>

datatype atom = One "nat \<Rightarrow> bool" | Lazy "nat \<Rightarrow> bool" | Greedy "nat \<Rightarrow> bool"

type_synonym regex = "atom list"

fun matchHere :: "regex \<Rightarrow> (nat \<times> string) list \<Rightarrow> (nat \<times> string) list option" where
  "matchHere [] ts = Some ts"
| "matchHere (One p # re) [] = None"
| "matchHere (One p # re) (t # ts) = (if p (fst t) then matchHere re ts else None)"
| "matchHere (Lazy p # re) ts =
     (case matchHere re ts of
        Some rest \<Rightarrow> Some rest
      | None \<Rightarrow>
          (case ts of
             [] \<Rightarrow> None
           | t # ts' \<Rightarrow> if p (fst t) then matchHere (Lazy p # re) ts' else None))"
| "matchHere (Greedy p # re) ts =
     (case ts of
        [] \<Rightarrow> matchHere re []
      | t # ts' \<Rightarrow>
          if p (fst t) then
            (case matchHere (Greedy p # re) ts' of
               Some rest \<Rightarrow> Some rest
             | None \<Rightarrow> matchHere re ts)
          else matchHere re ts)"

text \<open>\<^verbatim>\<open>MatchString\<close>: is there a match starting at some rune of the string?\<close>

fun matchAny :: "regex \<Rightarrow> (nat \<times> string) list \<Rightarrow> bool" where
  "matchAny re [] = (matchHere re [] \<noteq> None)"
| "matchAny re (t # ts) = (matchHere re (t # ts) \<noteq> None \<or> matchAny re ts)"

definition MatchString :: "regex \<Rightarrow> string \<Rightarrow> bool" where
  "MatchString re s = matchAny re (tokens s)"

lemma matchHere_length: "matchHere re ts = Some rest \<Longrightarrow> length rest \<le> length ts"
proof (induction re ts arbitrary: rest rule: matchHere.induct)
  case (1 ts)
  then show ?case by simp
next
  case (2 p re)
  then show ?case by simp
next
  case (3 p re t ts)
  then show ?case by (auto split: if_splits intro: le_SucI)
next
  case (4 p re ts)
  show ?case
  proof (cases "matchHere re ts")
    case (Some r)
    with 4 show ?thesis by simp
  next
    case None
    with 4 show ?thesis
      by (cases ts) (auto split: if_splits intro: le_SucI)
  qed
next
  case (5 p re ts)
  show ?case
  proof (cases ts)
    case Nil
    with 5 show ?thesis by simp
  next
    case (Cons t ts')
    show ?thesis
    proof (cases "p (fst t)")
      case True
      show ?thesis
      proof (cases "matchHere (Greedy p # re) ts'")
        case (Some r)
        with "5.prems" Cons True have "r = rest" by simp
        with "5.IH"(2) [OF Cons True] Some have "length rest \<le> length ts'" by simp
        with Cons show ?thesis by simp
      next
        case None
        with "5.prems" Cons True have "matchHere re ts = Some rest" by simp
        with "5.IH"(3) [OF Cons True None] show ?thesis by simp
      qed
    next
      case False
      with "5.prems" Cons have "matchHere re ts = Some rest" by simp
      with "5.IH"(4) [OF Cons False] show ?thesis by simp
    qed
  qed
qed

text \<open>
  \<^verbatim>\<open>ReplaceAllString\<close>: the library's loop finds the leftmost match from the search
  position, copies the text before it, writes the replacement (but not for an empty match
  right after the previous match) and goes on after the match, by at least one rune.
  \<open>prevEnd\<close> says that the previous match ended at the search position.
\<close>

function replaceAllT :: "regex \<Rightarrow> string \<Rightarrow> (nat \<times> string) list \<Rightarrow> bool \<Rightarrow> string" where
  "replaceAllT re repl ts prevEnd =
     (case matchHere re ts of
        Some rest \<Rightarrow>
          if length rest < length ts then repl @ replaceAllT re repl rest True
          else (if prevEnd then [] else repl)
                 @ (case ts of [] \<Rightarrow> [] | t # ts' \<Rightarrow> snd t @ replaceAllT re repl ts' False)
      | None \<Rightarrow> (case ts of [] \<Rightarrow> [] | t # ts' \<Rightarrow> snd t @ replaceAllT re repl ts' False))"
  by pat_completeness auto
termination
  by (relation "measure (\<lambda>(re, repl, ts, prevEnd). length ts)") auto

declare replaceAllT.simps [simp del]

definition ReplaceAllString :: "regex \<Rightarrow> string \<Rightarrow> string \<Rightarrow> string" where
  "ReplaceAllString re src repl = replaceAllT re repl (tokens src) False"

text \<open>Building patterns: a literal, a literal under \<^verbatim>\<open>(?i)\<close>, and the classes used.\<close>

definition lit :: "string \<Rightarrow> regex" where
  "lit s = map (\<lambda>c. One (\<lambda>r. r = byte c)) s"

text \<open>
  Under \<^verbatim>\<open>(?i)\<close> a literal rune matches every rune of its case-folding orbit
  (\<^verbatim>\<open>unicode.SimpleFold\<close>): the other case of a letter, and for \<^verbatim>\<open>k\<close> the Kelvin sign
  U+212A, for \<^verbatim>\<open>s\<close> the long s U+017F.
\<close>

definition foldEq :: "nat \<Rightarrow> nat \<Rightarrow> bool" where
  "foldEq c r =
     (r = c
      \<or> (97 \<le> c \<and> c \<le> 122 \<and> r + 32 = c)
      \<or> (65 \<le> c \<and> c \<le> 90 \<and> r = c + 32)
      \<or> ((c = 107 \<or> c = 75) \<and> r = 0x212A)
      \<or> ((c = 115 \<or> c = 83) \<and> r = 0x17F))"

definition litI :: "string \<Rightarrow> regex" where
  "litI s = map (\<lambda>c. One (foldEq (byte c))) s"

section \<open>Data model\<close>

text \<open>
  A \<^verbatim>\<open>float64\<close> that the code only stores, copies and compares is a \<^typ>\<open>real\<close>;
  a Go \<^verbatim>\<open>int\<close> is an \<^typ>\<open>int\<close>.
\<close>

subsection \<open>Search results\<close>

text \<open>
  \<^verbatim>\<open>types.SearchResult\<close>: the struct's declaration is not among the sources; the record
  has the fields that \<^verbatim>\<open>into_chat_message.go\<close> reads. The name \<^verbatim>\<open>Content\<close> is used
  by the message record below, so this field carries the suffix \<open>_r\<close>.
\<close>

record SearchResult =
  ID :: string
  Content_r :: string
  ChunkType :: string
  Score :: real
  ImageInfo :: string

text \<open>
  Modelled from the spec: the constant \<^verbatim>\<open>types.ChunkTypeFAQ\<close> is declared outside the
  sources. The spec lists the chunk types as text / FAQ / table / image; the FAQ type is the
  string \<^verbatim>\<open>faq\<close>.
\<close>

definition ChunkTypeFAQ :: string where
  "ChunkTypeFAQ = ''faq''"

subsection \<open>History turns and persisted messages\<close>

text \<open>
  \<^verbatim>\<open>types.History\<close> and \<^verbatim>\<open>types.Message\<close>, with the fields that
  \<^verbatim>\<open>load_history.go\<close> reads and writes. A \<^verbatim>\<open>time.Time\<close> is an instant on the time line,
  modelled as an \<^typ>\<open>int\<close> (\<^verbatim>\<open>After\<close> is \<open>>\<close>). Knowledge references are opaque here:
  the stage only copies them.
\<close>

record History =
  Query_h :: string
  Answer :: string
  CreateAt :: int
  KnowledgeReferences :: "string list"

record Message =
  RequestID :: string
  Role :: string
  Content :: string
  CreatedAt :: int
  KnowledgeReferences_m :: "string list"

subsection \<open>The execution context\<close>

text \<open>
  \<^verbatim>\<open>types.SummaryConfig\<close> with the thirteen fields that \<^verbatim>\<open>Clone\<close> copies.
  \<^verbatim>\<open>Thinking\<close> is a pointer to a bool: \<^verbatim>\<open>prepareChatModel\<close> assigns it to
  \<^verbatim>\<open>ChatOptions.Thinking\<close>, which \<^verbatim>\<open>ollama.go\<close> compares with \<^verbatim>\<open>nil\<close> and dereferences.
  The type parameter \<open>'bp\<close> is the representation of that pointer.
\<close>

record 'bp SummaryConfig =
  MaxTokens :: int
  RepeatPenalty :: real
  TopK :: int
  TopP :: real
  FrequencyPenalty :: real
  PresencePenalty :: real
  Prompt :: string
  ContextTemplate :: string
  NoMatchPrefix :: string
  Temperature :: real
  Seed :: int
  MaxCompletionTokens :: int
  Thinking :: 'bp

text \<open>
  \<^verbatim>\<open>types.ChatManage\<close>, field by field. The slice-typed fields are type parameters, so that
  the same record serves two views: the pipeline stages work on the values
  (\<open>'hs = History list\<close>, \<open>'rs = SearchResult list\<close>), while \<^verbatim>\<open>Clone\<close> is studied with
  slices as references into a store (section \<open>Clone\<close>), where sharing is visible.
  \<open>'ss\<close> stands for \<^verbatim>\<open>[]string\<close>, \<open>'ts\<close> for \<^verbatim>\<open>SearchTargets\<close>, \<open>'hs\<close> for
  \<^verbatim>\<open>[]*History\<close> and \<open>'rs\<close> for \<^verbatim>\<open>[]*SearchResult\<close>. The remaining pointer, map and
  interface fields are optional addresses.
\<close>

type_synonym addr = nat

record ('ss, 'ts, 'hs, 'rs, 'bp) ChatManage =
  SessionID :: string
  Query :: string
  RewriteQuery :: string
  History :: 'hs
  KnowledgeBaseIDs :: 'ss
  KnowledgeIDs :: 'ss
  SearchTargets :: 'ts
  VectorThreshold :: real
  KeywordThreshold :: real
  EmbeddingTopK :: int
  VectorDatabase :: string
  RerankModelID :: string
  RerankTopK :: int
  RerankThreshold :: real
  MaxRounds :: int
  ChatModelID :: string
  SummaryConfig :: "'bp SummaryConfig"
  FallbackStrategy :: string
  FallbackResponse :: string
  FallbackPrompt :: string
  EnableRewrite :: bool
  EnableQueryExpansion :: bool
  RewritePromptSystem :: string
  RewritePromptUser :: string
  SearchResult :: 'rs
  RerankResult :: 'rs
  MergeResult :: 'rs
  Entity :: 'ss
  EntityKBIDs :: 'ss
  EntityKnowledge :: "addr option"
  GraphResult :: "addr option"
  UserContent :: string
  ChatResponse :: "addr option"
  EventBus :: "addr option"
  MessageID :: string
  TenantID :: "64 word"
  WebSearchEnabled :: bool
  FAQPriorityEnabled :: bool
  FAQDirectAnswerThreshold :: real
  FAQScoreBoost :: real

type_synonym ('ss, 'ts, 'bp) Ctx = "('ss, 'ts, History list, SearchResult list, 'bp) ChatManage"

text \<open>
  \<^verbatim>\<open>types.SearchTarget\<close>, with the three fields that \<^verbatim>\<open>Clone\<close> copies; \<^verbatim>\<open>SearchTargets\<close>
  is a slice of pointers to such structs, \<^verbatim>\<open>nil\<close> being \<open>None\<close>.
\<close>

record 'ss SearchTarget =
  Type_t :: string
  KnowledgeBaseID_t :: string
  KnowledgeIDs_t :: 'ss

text \<open>The zero value \<^verbatim>\<open>ChatManage{}\<close>, in the view of the stages.\<close>

definition zeroSummaryConfig :: "bool option SummaryConfig" where
  "zeroSummaryConfig =
     \<lparr>MaxTokens = 0, RepeatPenalty = 0, TopK = 0, TopP = 0, FrequencyPenalty = 0,
      PresencePenalty = 0, Prompt = [], ContextTemplate = [], NoMatchPrefix = [],
      Temperature = 0, Seed = 0, MaxCompletionTokens = 0, Thinking = None\<rparr>"

definition zeroChatManage ::
    "(string list, (string list SearchTarget) option list, bool option) Ctx" where
  "zeroChatManage =
     \<lparr>SessionID = [], Query = [], RewriteQuery = [], History = [], KnowledgeBaseIDs = [],
      KnowledgeIDs = [], SearchTargets = [], VectorThreshold = 0, KeywordThreshold = 0,
      EmbeddingTopK = 0, VectorDatabase = [], RerankModelID = [], RerankTopK = 0,
      RerankThreshold = 0, MaxRounds = 0, ChatModelID = [], SummaryConfig = zeroSummaryConfig,
      FallbackStrategy = [], FallbackResponse = [], FallbackPrompt = [], EnableRewrite = False,
      EnableQueryExpansion = False, RewritePromptSystem = [], RewritePromptUser = [],
      SearchResult = [], RerankResult = [], MergeResult = [], Entity = [], EntityKBIDs = [],
      EntityKnowledge = None, GraphResult = None, UserContent = [], ChatResponse = None,
      EventBus = None, MessageID = [], TenantID = 0, WebSearchEnabled = False,
      FAQPriorityEnabled = False, FAQDirectAnswerThreshold = 0, FAQScoreBoost = 0\<rparr>"

subsection \<open>Pipeline log\<close>

text \<open>
  \<^verbatim>\<open>pipelineInfo\<close> and \<^verbatim>\<open>pipelineWarn\<close> append an entry to the log. An entry keeps the
  level, the stage and the action; the map of fields is not modelled.
\<close>

datatype LogLevel = Info | Warn

type_synonym LogEntry = "LogLevel \<times> string \<times> string"

definition pipelineInfo :: "string \<Rightarrow> string \<Rightarrow> LogEntry list \<Rightarrow> LogEntry list" where
  "pipelineInfo stage action lg = lg @ [(Info, stage, action)]"

definition pipelineWarn :: "string \<Rightarrow> string \<Rightarrow> LogEntry list \<Rightarrow> LogEntry list" where
  "pipelineWarn stage action lg = lg @ [(Warn, stage, action)]"

section \<open>Prompt assembly: separating FAQ and document results\<close>

text \<open>
  The locals of \<^verbatim>\<open>PluginIntoChatMessage.OnEvent\<close> that the first loop fills
  (lines 41--60): \<^verbatim>\<open>faqResults\<close>, \<^verbatim>\<open>docResults\<close>, \<^verbatim>\<open>hasHighConfidenceFAQ\<close>, and the log.
\<close>

record Separation =
  faqResults :: "SearchResult list"
  docResults :: "SearchResult list"
  hasHighConfidenceFAQ :: bool
  sepLog :: "LogEntry list"

fun faqLoop :: "real \<Rightarrow> SearchResult list \<Rightarrow> Separation \<Rightarrow> Separation" where
  "faqLoop thr [] st = st"
| "faqLoop thr (result # rest) st =
     (if ChunkType result = ChunkTypeFAQ then
        (let st1 = st\<lparr>faqResults := faqResults st @ [result]\<rparr> in
         if thr \<le> Score result \<and> \<not> hasHighConfidenceFAQ st1 then
           faqLoop thr rest
             (st1\<lparr>hasHighConfidenceFAQ := True,
                  sepLog := pipelineInfo ''IntoChatMessage'' ''high_confidence_faq'' (sepLog st1)\<rparr>)
         else faqLoop thr rest st1)
      else faqLoop thr rest (st\<lparr>docResults := docResults st @ [result]\<rparr>))"

definition separateFAQ :: "('ss, 'ts, 'bp) Ctx \<Rightarrow> LogEntry list \<Rightarrow> Separation" where
  "separateFAQ chatManage lg =
     (let st0 = \<lparr>faqResults = [], docResults = [], hasHighConfidenceFAQ = False, sepLog = lg\<rparr> in
      if FAQPriorityEnabled chatManage then
        (let st1 = faqLoop (FAQDirectAnswerThreshold chatManage) (MergeResult chatManage) st0 in
         st1\<lparr>sepLog := pipelineInfo ''IntoChatMessage'' ''faq_separation'' (sepLog st1)\<rparr>)
      else st0)"

section \<open>Input validation (\<^verbatim>\<open>internal/utils/security.go\<close>)\<close>

text \<open>The character classes of the patterns.\<close>

definition anyRune :: "nat \<Rightarrow> bool" where
  "anyRune r = True"

definition notNewline :: "nat \<Rightarrow> bool" where
  "notNewline r = (r \<noteq> 10)"

definition notGt :: "nat \<Rightarrow> bool" where
  "notGt r = (r \<noteq> 62)"

definition perlSpace :: "nat \<Rightarrow> bool" where
  "perlSpace r = (r = 9 \<or> r = 10 \<or> r = 12 \<or> r = 13 \<or> r = 32)"

text \<open>
  The three shapes of the sixteen patterns, all under \<^verbatim>\<open>(?i)\<close>:
  \<^verbatim>\<open><name[^>]*>.*?</name>\<close>, \<^verbatim>\<open><name[^>]*>\<close> and \<^verbatim>\<open>name\s*=\<close>. Without the flag
  \<^verbatim>\<open>s\<close> the dot does not match a line feed.
\<close>

definition tagPair :: "string \<Rightarrow> regex" where
  "tagPair name =
     litI (''<'' @ name) @ [Greedy notGt] @ litI ''>'' @ [Lazy notNewline]
       @ litI (''</'' @ name @ ''>'')"

definition tagOpen :: "string \<Rightarrow> regex" where
  "tagOpen name = litI (''<'' @ name) @ [Greedy notGt] @ litI ''>''"

definition handler :: "string \<Rightarrow> regex" where
  "handler name = litI name @ [Greedy perlSpace] @ litI ''=''"

definition xssPatterns :: "regex list" where
  "xssPatterns =
     [tagPair ''script'', tagPair ''iframe'', tagPair ''object'', tagPair ''embed'',
      tagOpen ''embed'', tagPair ''form'', tagOpen ''input'', tagPair ''button'',
      litI ''javascript:'', litI ''vbscript:'',
      handler ''onload'', handler ''onerror'', handler ''onclick'', handler ''onmouseover'',
      handler ''onfocus'', handler ''onblur'']"

text \<open>The test of the first loop of \<^verbatim>\<open>ValidateInput\<close>: \<^verbatim>\<open>r < 32 && r != 9 && r != 10 && r != 13\<close>.\<close>

definition controlRune :: "nat \<Rightarrow> bool" where
  "controlRune r = (r < 32 \<and> r \<noteq> 9 \<and> r \<noteq> 10 \<and> r \<noteq> 13)"

definition ValidateInput :: "string \<Rightarrow> string \<times> bool" where
  "ValidateInput input =
     (if input = [] then ([], True)
      else if list_ex controlRune (runes input) then ([], False)
      else if \<not> ValidString input then ([], False)
      else if list_ex (\<lambda>pattern. MatchString pattern input) xssPatterns then ([], False)
      else (TrimSpace input, True))"

section \<open>Prompt assembly (\<^verbatim>\<open>chat_pipline/into_chat_message.go\<close>)\<close>

subsection \<open>Errors, the clock and the state a stage works on\<close>

text \<open>
  Modelled from the spec: the type \<^verbatim>\<open>PluginError\<close> and the value
  \<^verbatim>\<open>ErrTemplateExecute\<close> are declared outside the sources. The spec describes the error
  object of a plugin as a kind with a cause; \<^verbatim>\<open>WithError\<close> attaches the cause.
\<close>

datatype ErrorKind = ErrTemplateExecute

record PluginError =
  kind :: ErrorKind
  cause :: string


text \<open>
  A stage receives the context by pointer and changes it in place; the model passes the
  context and the log along and returns them. \<open>Returned e w\<close> is a return with the error
  \<open>e\<close> (\<^verbatim>\<open>nil\<close> is \<open>None\<close>) in the state \<open>w\<close>; \<open>Panicked\<close> is a run-time panic. The
  continuation \<^verbatim>\<open>next\<close> is a function from the state in which it is called.
\<close>

record ('ss, 'ts, 'bp) World =
  ctx :: "('ss, 'ts, 'bp) Ctx"
  plog :: "LogEntry list"

datatype 'w result = Panicked | Returned "PluginError option" 'w




subsection \<open>Passages\<close>

text \<open>
  \<^verbatim>\<open>getEnrichedPassageForChat\<close>. \<^verbatim>\<open>enrichContentWithImageInfo\<close> decodes JSON with
  \<^verbatim>\<open>encoding/json\<close> and rewrites Markdown image links; it is the parameter \<open>enrich\<close>
  (content and image information to the enriched content).
\<close>

definition getEnrichedPassageForChat :: "(string \<Rightarrow> string \<Rightarrow> string) \<Rightarrow> SearchResult \<Rightarrow> string" where
  "getEnrichedPassageForChat enrich result =
     (if Content_r result = [] \<and> ImageInfo result = [] then []
      else if ImageInfo result = [] then Content_r result
      else enrich (Content_r result) (ImageInfo result))"

subsection \<open>The contexts block\<close>

definition faqHeader :: string where
  "faqHeader = ''### '' @ [CHR 0xE8, CHR 0xB5, CHR 0x84, CHR 0xE6, CHR 0x96, CHR 0x99, CHR 0xE6, CHR 0x9D,
       CHR 0xA5, CHR 0xE6, CHR 0xBA, CHR 0x90] @ '' 1'' @ [CHR 0xEF, CHR 0xBC, CHR 0x9A, CHR
       0xE6, CHR 0xA0, CHR 0x87, CHR 0xE5, CHR 0x87, CHR 0x86, CHR 0xE9, CHR 0x97, CHR 0xAE,
       CHR 0xE7, CHR 0xAD, CHR 0x94, CHR 0xE5, CHR 0xBA, CHR 0x93] @ '' (FAQ)'' @ [CHR 0x0A]"

definition faqNote :: string where
  "faqNote = [CHR 0xE3, CHR 0x80, CHR 0x90, CHR 0xE9, CHR 0xAB, CHR 0x98, CHR 0xE7, CHR 0xBD, CHR 0xAE,
       CHR 0xE4, CHR 0xBF, CHR 0xA1, CHR 0xE5, CHR 0xBA, CHR 0xA6] @ '' - '' @ [CHR 0xE8,
       CHR 0xAF, CHR 0xB7, CHR 0xE4, CHR 0xBC, CHR 0x98, CHR 0xE5, CHR 0x85, CHR 0x88, CHR
       0xE5, CHR 0x8F, CHR 0x82, CHR 0xE8, CHR 0x80, CHR 0x83, CHR 0xE3, CHR 0x80, CHR 0x91,
       CHR 0x0A]"

definition exactMark :: string where
  "exactMark = [CHR 0xE2, CHR 0xAD, CHR 0x90] @ '' '' @ [CHR 0xE7, CHR 0xB2, CHR 0xBE, CHR 0xE5, CHR 0x87,
       CHR 0x86, CHR 0xE5, CHR 0x8C, CHR 0xB9, CHR 0xE9, CHR 0x85, CHR 0x8D] @ '': ''"

definition docHeader :: string where
  "docHeader = [CHR 0x0A] @ ''### '' @ [CHR 0xE8, CHR 0xB5, CHR 0x84, CHR 0xE6, CHR 0x96, CHR 0x99, CHR
       0xE6, CHR 0x9D, CHR 0xA5, CHR 0xE6, CHR 0xBA, CHR 0x90] @ '' 2'' @ [CHR 0xEF, CHR
       0xBC, CHR 0x9A, CHR 0xE5, CHR 0x8F, CHR 0x82, CHR 0xE8, CHR 0x80, CHR 0x83, CHR 0xE6,
       CHR 0x96, CHR 0x87, CHR 0xE6, CHR 0xA1, CHR 0xA3, CHR 0x0A]"

definition docNote :: string where
  "docNote = [CHR 0xE3, CHR 0x80, CHR 0x90, CHR 0xE8, CHR 0xA1, CHR 0xA5, CHR 0xE5, CHR 0x85, CHR 0x85,
       CHR 0xE8, CHR 0xB5, CHR 0x84, CHR 0xE6, CHR 0x96, CHR 0x99] @ '' - '' @ [CHR 0xE4,
       CHR 0xBB, CHR 0x85, CHR 0xE5, CHR 0x9C, CHR 0xA8] @ ''FAQ'' @ [CHR 0xE6, CHR 0x97,
       CHR 0xA0, CHR 0xE6, CHR 0xB3, CHR 0x95, CHR 0xE8, CHR 0xA7, CHR 0xA3, CHR 0xE7, CHR
       0xAD, CHR 0x94, CHR 0xE6, CHR 0x97, CHR 0xB6, CHR 0xE5, CHR 0x8F, CHR 0x82, CHR 0xE8,
       CHR 0x80, CHR 0x83, CHR 0xE3, CHR 0x80, CHR 0x91, CHR 0x0A]"

text \<open>
  The loops over \<^verbatim>\<open>faqResults\<close> and \<^verbatim>\<open>docResults\<close> (lines 87--94 and 99--102): \<open>i\<close> is
  the index, \<open>b\<close> the contents of the string builder.
\<close>

fun faqEntries :: "(string \<Rightarrow> string \<Rightarrow> string) \<Rightarrow> bool \<Rightarrow> nat \<Rightarrow> SearchResult list \<Rightarrow> string \<Rightarrow> string" where
  "faqEntries enrich high i [] b = b"
| "faqEntries enrich high i (result # rest) b =
     (let passage = getEnrichedPassageForChat enrich result in
      if high \<and> i = 0 then
        faqEntries enrich high (i + 1) rest
          (b @ ''[FAQ-'' @ itoa (i + 1) @ ''] '' @ exactMark @ passage @ [CHR 0x0A])
      else
        faqEntries enrich high (i + 1) rest
          (b @ ''[FAQ-'' @ itoa (i + 1) @ ''] '' @ passage @ [CHR 0x0A]))"

fun docEntries :: "(string \<Rightarrow> string \<Rightarrow> string) \<Rightarrow> nat \<Rightarrow> SearchResult list \<Rightarrow> string \<Rightarrow> string" where
  "docEntries enrich i [] b = b"
| "docEntries enrich i (result # rest) b =
     (let passage = getEnrichedPassageForChat enrich result in
      docEntries enrich (i + 1) rest (b @ ''[DOC-'' @ itoa (i + 1) @ ''] '' @ passage @ [CHR 0x0A]))"

text \<open>The loop over \<^verbatim>\<open>passages\<close> of the flat list (lines 110--115).\<close>

fun flatEntries :: "nat \<Rightarrow> string list \<Rightarrow> string \<Rightarrow> string" where
  "flatEntries i [] b = b"
| "flatEntries i (passage # rest) b =
     (let b1 = (if 0 < i then b @ [CHR 0x0A, CHR 0x0A] else b) in
      flatEntries (i + 1) rest (b1 @ ''['' @ itoa (i + 1) @ ''] '' @ passage))"

definition buildContexts ::
    "(string \<Rightarrow> string \<Rightarrow> string) \<Rightarrow> ('ss, 'ts, 'bp) Ctx \<Rightarrow> Separation \<Rightarrow> string" where
  "buildContexts enrich chatManage sep =
     (if FAQPriorityEnabled chatManage \<and> 0 < length (faqResults sep) then
        (let b1 = faqHeader @ faqNote;
             b2 = faqEntries enrich (hasHighConfidenceFAQ sep) 0 (faqResults sep) b1
         in if 0 < length (docResults sep) then
              docEntries enrich 0 (docResults sep) (b2 @ docHeader @ docNote)
            else b2)
      else
        (let passages = map (getEnrichedPassageForChat enrich) (MergeResult chatManage)
         in flatEntries 0 passages []))"

subsection \<open>The stage\<close>




section \<open>History loading (\<^verbatim>\<open>chat_pipline/load_history.go\<close>)\<close>

text \<open>\<^verbatim>\<open>regThink\<close> is \<^verbatim>\<open>(?s)<think>.*?</think>\<close>: under the flag \<^verbatim>\<open>s\<close> the dot matches every rune.\<close>

definition regThink :: regex where
  "regThink = lit ''<think>'' @ [Lazy anyRune] @ lit ''</think>''"

text \<open>
  Of the configuration the stage reads \<^verbatim>\<open>Conversation.MaxRounds\<close>. The message service is an
  interface: \<^verbatim>\<open>GetRecentMessagesBySession\<close> is a parameter, from the session and the limit
  to an error or the messages. The limit is a 64-bit \<^verbatim>\<open>int\<close>.
\<close>

record Config =
  Conversation_MaxRounds :: int

type_synonym MessageService = "string \<Rightarrow> int \<Rightarrow> string + Message list"

definition int64 :: "int \<Rightarrow> int" where
  "int64 x = (x + 2 ^ 63) mod 2 ^ 64 - 2 ^ 63"

definition maxRoundsOf :: "Config \<Rightarrow> ('ss, 'ts, 'bp) Ctx \<Rightarrow> int" where
  "maxRoundsOf config chatManage =
     (if 0 < MaxRounds chatManage then MaxRounds chatManage else Conversation_MaxRounds config)"

text \<open>
  Two things are left open by the Go run time: the order in which \<^verbatim>\<open>range\<close> visits the
  entries of a map, and the order in which \<^verbatim>\<open>sort.Slice\<close>, which is not stable, leaves
  elements that compare equal. Both are parameters of the model.
\<close>

record GoRuntime =
  rangeOrder :: "(string \<times> History) list \<Rightarrow> (string \<times> History) list"
  sortSlice :: "(History \<Rightarrow> History \<Rightarrow> bool) \<Rightarrow> History list \<Rightarrow> History list"

text \<open>
  The first loop (lines 80--95). \<^verbatim>\<open>historyMap\<close> is a list of entries with distinct keys;
  \<^verbatim>\<open>&types.History{}\<close> is the zero turn.
\<close>

definition zeroHistory :: History where
  "zeroHistory = \<lparr>Query_h = [], Answer = [], CreateAt = 0, KnowledgeReferences = []\<rparr>"

definition addMessage :: "(string \<times> History) list \<Rightarrow> Message \<Rightarrow> (string \<times> History) list" where
  "addMessage historyMap message =
     (let h = (case map_of historyMap (RequestID message) of Some h0 \<Rightarrow> h0 | None \<Rightarrow> zeroHistory);
          h1 = (if Role message = ''user'' then
                  h\<lparr>Query_h := Content message, CreateAt := CreatedAt message\<rparr>
                else
                  h\<lparr>Answer := ReplaceAllString regThink (Content message) [],
                    KnowledgeReferences := KnowledgeReferences_m message\<rparr>)
      in AList.update (RequestID message) h1 historyMap)"

text \<open>The comparison given to \<^verbatim>\<open>sort.Slice\<close>: \<^verbatim>\<open>historyList[i].CreateAt.After(historyList[j].CreateAt)\<close>.\<close>

definition createdAfter :: "History \<Rightarrow> History \<Rightarrow> bool" where
  "createdAfter a b = (CreateAt b < CreateAt a)"

text \<open>
  Lines 97--116: the complete turns, sorted, cut to \<^verbatim>\<open>maxRounds\<close> and reversed. The slice
  expression \<^verbatim>\<open>historyList[:maxRounds]\<close> panics for a negative bound: the result is
  \<open>None\<close> then.
\<close>

definition historyList :: "GoRuntime \<Rightarrow> int \<Rightarrow> Message list \<Rightarrow> History list option" where
  "historyList rt maxRounds history =
     (let historyMap = foldl addMessage [] history;
          complete = filter (\<lambda>h. Answer h \<noteq> [] \<and> Query_h h \<noteq> [])
                       (map snd (rangeOrder rt historyMap));
          sorted = sortSlice rt createdAfter complete
      in if maxRounds < int (length sorted) then
           (if maxRounds < 0 then None else Some (rev (take (nat maxRounds) sorted)))
         else Some (rev sorted))"

definition LoadHistory_OnEvent ::
    "GoRuntime \<Rightarrow> Config \<Rightarrow> MessageService \<Rightarrow> ('ss, 'ts, 'bp) World
      \<Rightarrow> (('ss, 'ts, 'bp) World \<Rightarrow> ('ss, 'ts, 'bp) World result) \<Rightarrow> ('ss, 'ts, 'bp) World result" where
  "LoadHistory_OnEvent rt config GetRecentMessagesBySession w next =
     (let chatManage = ctx w;
          maxRounds = maxRoundsOf config chatManage;
          lg1 = pipelineInfo ''LoadHistory'' ''input'' (plog w)
      in case GetRecentMessagesBySession (SessionID chatManage) (int64 (maxRounds * 2 + 10)) of
           Inl err \<Rightarrow> next (w\<lparr>plog := pipelineWarn ''LoadHistory'' ''history_fetch'' lg1\<rparr>)
         | Inr history \<Rightarrow>
             (let lg2 = pipelineInfo ''LoadHistory'' ''fetched'' lg1 in
              case historyList rt maxRounds history of
                None \<Rightarrow> Panicked
              | Some turns \<Rightarrow>
                  next \<lparr>ctx = chatManage\<lparr>History := turns\<rparr>,
                        plog = pipelineInfo ''LoadHistory'' ''output'' lg2\<rparr>))"

section \<open>Notions used to state the properties\<close>


text \<open>
  A control character as the claim C10 words it: a code point of the Unicode category Cc
  (\<^verbatim>\<open>unicode.IsControl\<close>), that is one below 32 or one from 127 to 159. The second
  definition is acceptance as that claim describes it.
\<close>

definition IsControl :: "nat \<Rightarrow> bool" where
  "IsControl r = (r < 32 \<or> (127 \<le> r \<and> r < 160))"

definition acceptedAsClaimed :: "string \<Rightarrow> bool" where
  "acceptedAsClaimed s =
     (ValidString s
      \<and> list_all (\<lambda>r. IsControl r \<longrightarrow> r = 9 \<or> r = 10 \<or> r = 13) (runes s)
      \<and> list_all (\<lambda>pattern. \<not> MatchString pattern s) xssPatterns)"

text \<open>
  An instance of the parameter \<open>enrich\<close>: what \<^verbatim>\<open>enrichContentWithImageInfo\<close> returns
  when the image information does not parse or is empty (lines 159--168), the content.
\<close>

definition contentOnly :: "string \<Rightarrow> string \<Rightarrow> string" where
  "contentOnly content imageInfoJSON = content"

text \<open>
  The contexts block in closed form: the lines of the two sections, and the claim that the
  block has two labelled sections, the FAQ section first.
\<close>

definition faqLine :: "(string \<Rightarrow> string \<Rightarrow> string) \<Rightarrow> bool \<Rightarrow> nat \<Rightarrow> SearchResult \<Rightarrow> string" where
  "faqLine enrich high k r =
     ''[FAQ-'' @ itoa (k + 1) @ ''] '' @ (if high \<and> k = 0 then exactMark else [])
       @ getEnrichedPassageForChat enrich r @ [CHR 0x0A]"

definition docLine :: "(string \<Rightarrow> string \<Rightarrow> string) \<Rightarrow> nat \<Rightarrow> SearchResult \<Rightarrow> string" where
  "docLine enrich k r =
     ''[DOC-'' @ itoa (k + 1) @ ''] '' @ getEnrichedPassageForChat enrich r @ [CHR 0x0A]"

definition faqSection :: "(string \<Rightarrow> string \<Rightarrow> string) \<Rightarrow> bool \<Rightarrow> SearchResult list \<Rightarrow> string" where
  "faqSection enrich high faqs =
     faqHeader @ faqNote @ concat (map (\<lambda>(k, r). faqLine enrich high k r) (enumerate 0 faqs))"

definition docSection :: "(string \<Rightarrow> string \<Rightarrow> string) \<Rightarrow> SearchResult list \<Rightarrow> string" where
  "docSection enrich docs =
     docHeader @ docNote @ concat (map (\<lambda>(k, r). docLine enrich k r) (enumerate 0 docs))"

fun Contains :: "string \<Rightarrow> string \<Rightarrow> bool" where
  "Contains [] sub = HasPrefix [] sub"
| "Contains (c # s) sub = (HasPrefix (c # s) sub \<or> Contains s sub)"

definition twoSections :: "string \<Rightarrow> bool" where
  "twoSections c = (HasPrefix c faqHeader \<and> Contains (drop (length faqHeader) c) docHeader)"



text \<open>One run time: \<^verbatim>\<open>range\<close> in the order of insertion, sorting by insertion.\<close>

fun insertBy :: "('a \<Rightarrow> 'a \<Rightarrow> bool) \<Rightarrow> 'a \<Rightarrow> 'a list \<Rightarrow> 'a list" where
  "insertBy lt x [] = [x]"
| "insertBy lt x (y # ys) = (if lt y x then y # insertBy lt x ys else x # y # ys)"

definition insertionSort :: "('a \<Rightarrow> 'a \<Rightarrow> bool) \<Rightarrow> 'a list \<Rightarrow> 'a list" where
  "insertionSort lt xs = foldr (insertBy lt) xs []"

definition insertionRuntime :: GoRuntime where
  "insertionRuntime = \<lparr>rangeOrder = (\<lambda>m. m), sortSlice = insertionSort\<rparr>"


section \<open>Properties of input validation\<close>

lemma tokens_Nil: "tokens [] = []"
  by (simp add: tokens.simps)

lemma xss_empty: "\<not> list_ex (\<lambda>pattern. MatchString pattern []) xssPatterns"
  by (simp add: xssPatterns_def tagPair_def tagOpen_def handler_def litI_def MatchString_def
      tokens_Nil)

lemma ValidateInput_accepts:
  "snd (ValidateInput s) =
     (ValidString s \<and> \<not> list_ex controlRune (runes s)
      \<and> \<not> list_ex (\<lambda>pattern. MatchString pattern s) xssPatterns)"
proof (cases "s = []")
  case True
  then show ?thesis
    using xss_empty by (simp add: ValidateInput_def ValidString_def runes_def tokens_Nil)
next
  case False
  then show ?thesis by (simp add: ValidateInput_def)
qed

lemma TrimSpace_Nil: "TrimSpace [] = []"
  by (simp add: TrimSpace_def tokens_Nil bytesOf_def)

lemmas eval_strings = tokens.simps byte_def Let_def leadInfo_def cont_def RuneError_def runes_def
  bytesOf_def ValidString_def IsSpace_def TrimSpace_def HasPrefix_def

lemmas eval_regex = MatchString_def lit_def litI_def foldEq_def anyRune_def notNewline_def
  notGt_def perlSpace_def tagPair_def tagOpen_def handler_def xssPatterns_def controlRune_def

text \<open>
  C10 as stated fails: the code point 127 (DEL) is a control character other than tab, line
  feed and carriage return, and \<^verbatim>\<open>ValidateInput\<close> accepts the string that consists of it.
\<close>

theorem C10_counterexample:
  "runes [CHR 0x7F] = [127] \<and> IsControl 127
   \<and> ValidateInput [CHR 0x7F] = ([CHR 0x7F], True)
   \<and> \<not> acceptedAsClaimed [CHR 0x7F]"
  by (simp add: eval_strings eval_regex IsControl_def acceptedAsClaimed_def ValidateInput_def)

text \<open>
  C10, amended. \<^verbatim>\<open>ValidateInput\<close> accepts exactly the strings that are valid UTF-8, contain
  no code point below 32 other than tab (9), line feed (10) and carriage return (13), and
  match none of the XSS patterns. On acceptance it returns the input trimmed of leading and
  trailing white space, with true; on rejection the empty string with false; the empty input
  is accepted unchanged.
\<close>

theorem C10_ValidateInput_below_32:
  "(snd (ValidateInput s) \<longleftrightarrow>
      ValidString s
      \<and> (\<forall>r \<in> set (runes s). r < 32 \<longrightarrow> r = 9 \<or> r = 10 \<or> r = 13)
      \<and> (\<forall>pattern \<in> set xssPatterns. \<not> MatchString pattern s))
   \<and> (snd (ValidateInput s) \<longrightarrow> fst (ValidateInput s) = TrimSpace s)
   \<and> (\<not> snd (ValidateInput s) \<longrightarrow> fst (ValidateInput s) = [])
   \<and> ValidateInput [] = ([], True)"
proof -
  have a: "snd (ValidateInput s) \<longleftrightarrow>
      ValidString s
      \<and> (\<forall>r \<in> set (runes s). r < 32 \<longrightarrow> r = 9 \<or> r = 10 \<or> r = 13)
      \<and> (\<forall>pattern \<in> set xssPatterns. \<not> MatchString pattern s)"
    unfolding ValidateInput_accepts list_ex_iff controlRune_def by blast
  have b: "snd (ValidateInput s) \<longrightarrow> fst (ValidateInput s) = TrimSpace s"
    by (simp add: ValidateInput_def TrimSpace_Nil)
  have c: "\<not> snd (ValidateInput s) \<longrightarrow> fst (ValidateInput s) = []"
    by (simp add: ValidateInput_def)
  have d: "ValidateInput [] = ([], True)"
    by (simp add: ValidateInput_def)
  from a b c d show ?thesis by blast
qed

text \<open>
  The statement at an accepted input with a tab, at an input with the control character 1,
  and at an input with a script element.
\<close>

theorem C10_witness:
  "snd (ValidateInput ('' hi'' @ [CHR 0x09] @ ''x '')) \<and>
     fst (ValidateInput ('' hi'' @ [CHR 0x09] @ ''x '')) = ''hi'' @ [CHR 0x09] @ ''x''
   \<and> \<not> snd (ValidateInput (''a'' @ [CHR 0x01])) \<and> fst (ValidateInput (''a'' @ [CHR 0x01])) = []
   \<and> \<not> snd (ValidateInput ''<script>x</script>'') \<and> fst (ValidateInput ''<script>x</script>'') = []"
proof -
  let ?ok = "'' hi'' @ [CHR 0x09] @ ''x ''"
  let ?ctl = "''a'' @ [CHR 0x01]"
  have v: "ValidString ?ok" by (simp add: eval_strings)
  have c: "\<forall>r \<in> set (runes ?ok). r < 32 \<longrightarrow> r = 9 \<or> r = 10 \<or> r = 13"
    by (simp add: eval_strings)
  have x: "\<forall>pattern \<in> set xssPatterns. \<not> MatchString pattern ?ok"
    by (simp add: eval_strings eval_regex)
  have t: "TrimSpace ?ok = ''hi'' @ [CHR 0x09] @ ''x''" by (simp add: eval_strings)
  have k: "\<not> (\<forall>r \<in> set (runes ?ctl). r < 32 \<longrightarrow> r = 9 \<or> r = 10 \<or> r = 13)"
    by (simp add: eval_strings)
  have m: "MatchString (tagPair ''script'') ''<script>x</script>''"
    by (simp add: eval_strings eval_regex)
  have m': "\<not> (\<forall>pattern \<in> set xssPatterns. \<not> MatchString pattern ''<script>x</script>'')"
    using m by (simp add: xssPatterns_def)
  from C10_ValidateInput_below_32 [of ?ok] v c x t
  have 1: "snd (ValidateInput ?ok) \<and> fst (ValidateInput ?ok) = ''hi'' @ [CHR 0x09] @ ''x''"
    by simp
  from C10_ValidateInput_below_32 [of ?ctl] k
  have 2: "\<not> snd (ValidateInput ?ctl) \<and> fst (ValidateInput ?ctl) = []"
    by blast
  from C10_ValidateInput_below_32 [of "''<script>x</script>''"] m'
  have 3: "\<not> snd (ValidateInput ''<script>x</script>'') \<and> fst (ValidateInput ''<script>x</script>'') = []"
    by blast
  from 1 2 3 show ?thesis by simp
qed

section \<open>Properties of the FAQ separation\<close>

lemma faqLoop_flag:
  "hasHighConfidenceFAQ (faqLoop thr rs st) =
     (hasHighConfidenceFAQ st \<or> (\<exists>r \<in> set rs. ChunkType r = ChunkTypeFAQ \<and> thr \<le> Score r))"
  by (induction rs arbitrary: st) (auto simp: Let_def)

lemma faqLoop_faqResults:
  "faqResults (faqLoop thr rs st) = faqResults st @ filter (\<lambda>r. ChunkType r = ChunkTypeFAQ) rs"
  by (induction rs arbitrary: st) (auto simp: Let_def)

lemma faqLoop_docResults:
  "docResults (faqLoop thr rs st) = docResults st @ filter (\<lambda>r. ChunkType r \<noteq> ChunkTypeFAQ) rs"
  by (induction rs arbitrary: st) (auto simp: Let_def)

text \<open>
  C1. The high-confidence FAQ flag computed by the prompt-assembly stage is set if and only if
  FAQ-priority is enabled and at least one FAQ-typed entry of the merged result list has a score
  greater than or equal to the FAQ direct-answer threshold.
\<close>

theorem C1_high_confidence_flag:
  "hasHighConfidenceFAQ (separateFAQ chatManage lg) =
     (FAQPriorityEnabled chatManage \<and>
      (\<exists>r \<in> set (MergeResult chatManage).
         ChunkType r = ChunkTypeFAQ \<and> FAQDirectAnswerThreshold chatManage \<le> Score r))"
  by (simp add: separateFAQ_def Let_def faqLoop_flag)

text \<open>The flag at a context with FAQ-priority enabled and at one with it disabled.\<close>

theorem C1_witness:
  "hasHighConfidenceFAQ
     (separateFAQ
        (zeroChatManage\<lparr>FAQPriorityEnabled := True, FAQDirectAnswerThreshold := 9 / 10,
           MergeResult := [\<lparr>ID = ''c1'', Content_r = ''answer'', ChunkType = ''faq'',
                            Score = 95 / 100, ImageInfo = []\<rparr>]\<rparr>) [])
   \<and> \<not> hasHighConfidenceFAQ
     (separateFAQ
        (zeroChatManage\<lparr>FAQPriorityEnabled := False, FAQDirectAnswerThreshold := 9 / 10,
           MergeResult := [\<lparr>ID = ''c1'', Content_r = ''answer'', ChunkType = ''faq'',
                            Score = 95 / 100, ImageInfo = []\<rparr>]\<rparr>) [])"
proof -
  let ?hit = "\<lparr>ID = ''c1'', Content_r = ''answer'', ChunkType = ''faq'',
               Score = 95 / 100, ImageInfo = []\<rparr>"
  let ?on = "zeroChatManage\<lparr>FAQPriorityEnabled := True, FAQDirectAnswerThreshold := 9 / 10,
           MergeResult := [?hit]\<rparr>"
  let ?off = "zeroChatManage\<lparr>FAQPriorityEnabled := False, FAQDirectAnswerThreshold := 9 / 10,
           MergeResult := [?hit]\<rparr>"
  have e: "\<exists>r \<in> set (MergeResult ?on). ChunkType r = ChunkTypeFAQ \<and> FAQDirectAnswerThreshold ?on \<le> Score r"
    by (simp add: ChunkTypeFAQ_def)
  have on: "FAQPriorityEnabled ?on" by simp
  have off: "\<not> FAQPriorityEnabled ?off" by simp
  from C1_high_confidence_flag [of ?on "[]"] e on
  have 1: "hasHighConfidenceFAQ (separateFAQ ?on [])" by blast
  from C1_high_confidence_flag [of ?off "[]"] off
  have 2: "\<not> hasHighConfidenceFAQ (separateFAQ ?off [])" by blast
  from 1 2 show ?thesis by simp
qed

section \<open>Properties of prompt assembly\<close>





lemma HasPrefix_append: "HasPrefix (p @ r) p"
  by (simp add: HasPrefix_def)

lemma faqEntries_closed:
  "faqEntries enrich high i rs b =
     b @ concat (map (\<lambda>(k, r). faqLine enrich high k r) (enumerate i rs))"
proof (induction rs arbitrary: i b)
  case Nil
  show ?case by simp
next
  case (Cons r rs)
  have step: "faqEntries enrich high i (r # rs) b =
      faqEntries enrich high (i + 1) rs (b @ faqLine enrich high i r)"
    by (simp add: faqLine_def Let_def)
  show ?case
    unfolding step Cons.IH by simp
qed

lemma docEntries_closed:
  "docEntries enrich i rs b = b @ concat (map (\<lambda>(k, r). docLine enrich k r) (enumerate i rs))"
  by (induction rs arbitrary: i b) (simp_all add: docLine_def Let_def)

lemma separateFAQ_faqResults:
  "faqResults (separateFAQ cm lg) =
     (if FAQPriorityEnabled cm then filter (\<lambda>r. ChunkType r = ChunkTypeFAQ) (MergeResult cm) else [])"
  by (simp add: separateFAQ_def Let_def faqLoop_faqResults)

lemma separateFAQ_docResults:
  "docResults (separateFAQ cm lg) =
     (if FAQPriorityEnabled cm then filter (\<lambda>r. ChunkType r \<noteq> ChunkTypeFAQ) (MergeResult cm) else [])"
  by (simp add: separateFAQ_def Let_def faqLoop_docResults)

text \<open>
  C2 as stated fails: with FAQ-priority enabled and no FAQ-typed entry in the merged result
  list, the block is the flat numbered list.
\<close>

theorem C2_counterexample:
  "FAQPriorityEnabled
     (zeroChatManage\<lparr>FAQPriorityEnabled := True,
        MergeResult := [\<lparr>ID = ''d1'', Content_r = ''text'', ChunkType = ''text'',
                         Score = 1 / 2, ImageInfo = []\<rparr>]\<rparr>)
   \<and> buildContexts contentOnly
        (zeroChatManage\<lparr>FAQPriorityEnabled := True,
           MergeResult := [\<lparr>ID = ''d1'', Content_r = ''text'', ChunkType = ''text'',
                            Score = 1 / 2, ImageInfo = []\<rparr>]\<rparr>)
        (separateFAQ
           (zeroChatManage\<lparr>FAQPriorityEnabled := True,
              MergeResult := [\<lparr>ID = ''d1'', Content_r = ''text'', ChunkType = ''text'',
                               Score = 1 / 2, ImageInfo = []\<rparr>]\<rparr>) [])
      = ''[1] text''
   \<and> \<not> twoSections ''[1] text''"
  by (simp add: buildContexts_def separateFAQ_faqResults ChunkTypeFAQ_def
      getEnrichedPassageForChat_def itoa.simps digit_def twoSections_def HasPrefix_def faqHeader_def)

text \<open>
  C2, amended. With FAQ-priority enabled and at least one FAQ-typed entry in the merged
  result list, the contexts block is the labelled FAQ section, followed by the labelled
  reference-documents section when there is an entry of another type (and by nothing
  otherwise); when the high-confidence flag is set, the first FAQ entry carries the
  exact-match mark. With FAQ-priority enabled and no FAQ-typed entry, the block is the flat
  numbered list.
\<close>

theorem C2_sections_when_faq_present:
  assumes "FAQPriorityEnabled cm"
  shows "(filter (\<lambda>r. ChunkType r = ChunkTypeFAQ) (MergeResult cm) \<noteq> [] \<longrightarrow>
           buildContexts enrich cm (separateFAQ cm lg) =
             faqSection enrich (hasHighConfidenceFAQ (separateFAQ cm lg))
               (filter (\<lambda>r. ChunkType r = ChunkTypeFAQ) (MergeResult cm))
             @ (if filter (\<lambda>r. ChunkType r \<noteq> ChunkTypeFAQ) (MergeResult cm) = [] then []
                else docSection enrich (filter (\<lambda>r. ChunkType r \<noteq> ChunkTypeFAQ) (MergeResult cm))))
       \<and> (\<forall>f fs. filter (\<lambda>r. ChunkType r = ChunkTypeFAQ) (MergeResult cm) = f # fs
                   \<and> hasHighConfidenceFAQ (separateFAQ cm lg) \<longrightarrow>
             HasPrefix (buildContexts enrich cm (separateFAQ cm lg))
               (faqHeader @ faqNote @ ''[FAQ-1] '' @ exactMark
                  @ getEnrichedPassageForChat enrich f @ [CHR 0x0A]))
       \<and> (filter (\<lambda>r. ChunkType r = ChunkTypeFAQ) (MergeResult cm) = [] \<longrightarrow>
           buildContexts enrich cm (separateFAQ cm lg) =
             flatEntries 0 (map (getEnrichedPassageForChat enrich) (MergeResult cm)) [])"
proof -
  let ?faqs = "filter (\<lambda>r. ChunkType r = ChunkTypeFAQ) (MergeResult cm)"
  let ?docs = "filter (\<lambda>r. ChunkType r \<noteq> ChunkTypeFAQ) (MergeResult cm)"
  let ?sep = "separateFAQ cm lg"
  have fr: "faqResults ?sep = ?faqs" and dr: "docResults ?sep = ?docs"
    using assms by (simp_all add: separateFAQ_faqResults separateFAQ_docResults)
  have a: "?faqs \<noteq> [] \<longrightarrow> buildContexts enrich cm ?sep =
             faqSection enrich (hasHighConfidenceFAQ ?sep) ?faqs
             @ (if ?docs = [] then [] else docSection enrich ?docs)"
    using assms
    by (simp add: buildContexts_def fr dr Let_def faqEntries_closed docEntries_closed
        faqSection_def docSection_def)
  have b: "\<forall>f fs. ?faqs = f # fs \<and> hasHighConfidenceFAQ ?sep \<longrightarrow>
             HasPrefix (buildContexts enrich cm ?sep)
               (faqHeader @ faqNote @ ''[FAQ-1] '' @ exactMark
                  @ getEnrichedPassageForChat enrich f @ [CHR 0x0A])"
  proof (intro allI impI)
    fix f fs
    assume h: "?faqs = f # fs \<and> hasHighConfidenceFAQ ?sep"
    then have ne: "?faqs \<noteq> []" by simp
    have one: "itoa (Suc 0) = ''1''" by (simp add: itoa.simps digit_def)
    from a ne h have "buildContexts enrich cm ?sep =
        (faqHeader @ faqNote @ ''[FAQ-1] '' @ exactMark
           @ getEnrichedPassageForChat enrich f @ [CHR 0x0A])
        @ (concat (map (\<lambda>(k, r). faqLine enrich True k r) (enumerate 1 fs))
           @ (if ?docs = [] then [] else docSection enrich ?docs))"
      by (simp add: faqSection_def faqLine_def one)
    then show "HasPrefix (buildContexts enrich cm ?sep)
               (faqHeader @ faqNote @ ''[FAQ-1] '' @ exactMark
                  @ getEnrichedPassageForChat enrich f @ [CHR 0x0A])"
      by (simp only: HasPrefix_append)
  qed
  have c: "?faqs = [] \<longrightarrow> buildContexts enrich cm ?sep =
             flatEntries 0 (map (getEnrichedPassageForChat enrich) (MergeResult cm)) []"
    by (simp add: buildContexts_def fr Let_def)
  from a b c show ?thesis by blast
qed

text \<open>The block for one FAQ entry above the threshold and one document entry.\<close>

theorem C2_witness:
  "buildContexts contentOnly
     (zeroChatManage\<lparr>FAQPriorityEnabled := True, FAQDirectAnswerThreshold := 9 / 10,
        MergeResult :=
          [\<lparr>ID = ''c1'', Content_r = ''answer'', ChunkType = ''faq'', Score = 1, ImageInfo = []\<rparr>,
           \<lparr>ID = ''d1'', Content_r = ''text'', ChunkType = ''text'', Score = 1 / 2, ImageInfo = []\<rparr>]\<rparr>)
     (separateFAQ
        (zeroChatManage\<lparr>FAQPriorityEnabled := True, FAQDirectAnswerThreshold := 9 / 10,
           MergeResult :=
             [\<lparr>ID = ''c1'', Content_r = ''answer'', ChunkType = ''faq'', Score = 1, ImageInfo = []\<rparr>,
              \<lparr>ID = ''d1'', Content_r = ''text'', ChunkType = ''text'', Score = 1 / 2, ImageInfo = []\<rparr>]\<rparr>)
        [])
   = faqHeader @ faqNote @ ''[FAQ-1] '' @ exactMark @ ''answer'' @ [CHR 0x0A]
     @ docHeader @ docNote @ ''[DOC-1] text'' @ [CHR 0x0A]"
proof -
  let ?faq = "\<lparr>ID = ''c1'', Content_r = ''answer'', ChunkType = ''faq'', Score = 1, ImageInfo = []\<rparr>"
  let ?doc = "\<lparr>ID = ''d1'', Content_r = ''text'', ChunkType = ''text'', Score = 1 / 2, ImageInfo = []\<rparr>"
  let ?cm = "zeroChatManage\<lparr>FAQPriorityEnabled := True, FAQDirectAnswerThreshold := 9 / 10,
        MergeResult := [?faq, ?doc]\<rparr>"
  have en: "FAQPriorityEnabled ?cm" by simp
  have f: "filter (\<lambda>r. ChunkType r = ChunkTypeFAQ) (MergeResult ?cm) = [?faq]"
    by (simp add: ChunkTypeFAQ_def)
  have d: "filter (\<lambda>r. ChunkType r \<noteq> ChunkTypeFAQ) (MergeResult ?cm) = [?doc]"
    by (simp add: ChunkTypeFAQ_def)
  have h: "hasHighConfidenceFAQ (separateFAQ ?cm [])"
    by (simp add: separateFAQ_def ChunkTypeFAQ_def Let_def)
  have one: "itoa (Suc 0) = ''1''" by (simp add: itoa.simps digit_def)
  from C2_sections_when_faq_present [OF en, of contentOnly "[]"]
  have "buildContexts contentOnly ?cm (separateFAQ ?cm []) =
          faqSection contentOnly (hasHighConfidenceFAQ (separateFAQ ?cm [])) [?faq]
          @ docSection contentOnly [?doc]"
    unfolding f d by simp
  then show ?thesis
    by (simp add: h faqSection_def docSection_def faqLine_def docLine_def one
        getEnrichedPassageForChat_def contentOnly_def)
qed

section \<open>Properties of history loading\<close>







text \<open>
  C7. If fetching the recent messages fails, the history-loading stage returns no error of
  its own: it logs a warning, leaves the context as it is (so a history field at its zero
  value stays there) and returns what the continuation returns.
\<close>

theorem C7_history_fetch_failure:
  assumes "GetRecentMessagesBySession (SessionID (ctx w))
             (int64 (maxRoundsOf config (ctx w) * 2 + 10)) = Inl err"
  shows "LoadHistory_OnEvent rt config GetRecentMessagesBySession w next =
           next (w\<lparr>plog := plog w @ [(Info, ''LoadHistory'', ''input''),
                                      (Warn, ''LoadHistory'', ''history_fetch'')]\<rparr>)
         \<and> ctx (w\<lparr>plog := plog w @ [(Info, ''LoadHistory'', ''input''),
                                    (Warn, ''LoadHistory'', ''history_fetch'')]\<rparr>) = ctx w
         \<and> (History (ctx w) = [] \<longrightarrow>
              History (ctx (w\<lparr>plog := plog w @ [(Info, ''LoadHistory'', ''input''),
                                    (Warn, ''LoadHistory'', ''history_fetch'')]\<rparr>)) = [])"
  using assms
  by (simp add: LoadHistory_OnEvent_def Let_def pipelineInfo_def pipelineWarn_def)

text \<open>The stage with a message service that fails.\<close>

theorem C7_witness:
  "LoadHistory_OnEvent insertionRuntime \<lparr>Conversation_MaxRounds = 5\<rparr> (\<lambda>session limit. Inl ''timeout'')
     \<lparr>ctx = zeroChatManage\<lparr>SessionID := ''s1''\<rparr>, plog = []\<rparr> (Returned None)
   = Returned None
       \<lparr>ctx = zeroChatManage\<lparr>SessionID := ''s1''\<rparr>,
        plog = [(Info, ''LoadHistory'', ''input''), (Warn, ''LoadHistory'', ''history_fetch'')]\<rparr>
   \<and> History (ctx \<lparr>ctx = zeroChatManage\<lparr>SessionID := ''s1''\<rparr>,
        plog = [(Info, ''LoadHistory'', ''input''), (Warn, ''LoadHistory'', ''history_fetch'')]\<rparr>) = []"
proof -
  let ?w = "\<lparr>ctx = zeroChatManage\<lparr>SessionID := ''s1''\<rparr>, plog = []\<rparr>"
  let ?svc = "\<lambda>session limit. Inl ''timeout'' :: string + Message list"
  have f: "?svc (SessionID (ctx ?w)) (int64 (maxRoundsOf \<lparr>Conversation_MaxRounds = 5\<rparr> (ctx ?w) * 2 + 10))
             = Inl ''timeout''" by simp
  have z: "History (ctx ?w) = []" by (simp add: zeroChatManage_def)
  from C7_history_fetch_failure [of ?svc ?w "\<lparr>Conversation_MaxRounds = 5\<rparr>" "''timeout''" insertionRuntime "Returned None", OF f] z
  show ?thesis by simp
qed







end
